theory Spec2Isabelle
  imports Complex_Main "HOL-Library.AList" "HOL-Library.Word"
begin

unbundle bit_operations_syntax

section \<open>Program-enrollment API serializers\<close>

text \<open>
  The development embeds \<^verbatim>\<open>lms/djangoapps/program_enrollments/rest_api/v1/serializers.py\<close>.
  The file is declarative: every class lists fields of the REST framework, and the
  framework's \<^verbatim>\<open>Serializer\<close> base class gives the declarations their meaning. The
  embedding therefore has two layers: the base-class loops (\<^verbatim>\<open>to_representation\<close>,
  \<^verbatim>\<open>to_internal_value\<close>) and the field kinds, written once, and the declarations of
  the source file, written field by field in the order of the source.
\<close>

subsection \<open>Error reports and \<^verbatim>\<open>InvalidStatusMixin\<close>\<close>

text \<open>
  An \<^verbatim>\<open>ErrorDetail\<close> is a message with a \<^verbatim>\<open>code\<close> attribute. A serializer's
  \<^verbatim>\<open>errors\<close> is an ordered dictionary from field names to lists of error details.
\<close>

record error_detail =
  message :: string
  code :: string

type_synonym errors = "(string \<times> error_detail list) list"

text \<open>Python's \<^verbatim>\<open>d.get(k, default)\<close> on a dictionary kept as an association list.\<close>

definition dict_get :: "('k \<times> 'v) list \<Rightarrow> 'k \<Rightarrow> 'v \<Rightarrow> 'v" where
  "dict_get d k dflt = (case map_of d k of None \<Rightarrow> dflt | Some v \<Rightarrow> v)"

text \<open>
  The \<^verbatim>\<open>for\<close> loop of \<^verbatim>\<open>has_invalid_status\<close>: return \<^verbatim>\<open>True\<close> at the first error
  whose code is \<^verbatim>\<open>'invalid_choice'\<close>, \<^verbatim>\<open>False\<close> when the list is exhausted.
\<close>

fun status_error_loop :: "error_detail list \<Rightarrow> bool" where
  "status_error_loop [] = False"
| "status_error_loop (status_error # rest) =
     (if code status_error = ''invalid_choice'' then True else status_error_loop rest)"

definition has_invalid_status :: "errors \<Rightarrow> bool" where
  "has_invalid_status errs = status_error_loop (dict_get errs ''status'' [])"

subsection \<open>Wire values and Python values\<close>

text \<open>
  What a serializer emits: JSON-ready primitives in an ordered dictionary. A float is
  carried as the number it stands for; no shaper computes with it.
\<close>

datatype json =
    JNull
  | JBool bool
  | JNum real
  | JStr string
  | JList "json list"
  | JObj "(string \<times> json) list"

type_synonym dict = "(string \<times> json) list"

text \<open>
  Reading an attribute (or a key, when the source is a mapping) has three outcomes:
  the attribute does not exist (\<^verbatim>\<open>AttributeError\<close>, \<^verbatim>\<open>KeyError\<close>), it is \<^verbatim>\<open>None\<close>,
  or it holds a value.
\<close>

datatype 'a lookup = Missing | PyNone | Val 'a

datatype exn = AttributeError string

text \<open>A nullable column of a database row always exists; it is \<^verbatim>\<open>None\<close> or a value.\<close>

definition nullable :: "'a option \<Rightarrow> 'a lookup" where
  "nullable x = (case x of None \<Rightarrow> PyNone | Some v \<Rightarrow> Val v)"

text \<open>
  \<^verbatim>\<open>uuid.UUID\<close> is a 128-bit integer; \<^verbatim>\<open>str\<close> prints its 32 lower-case hexadecimal
  digits in groups of 8-4-4-4-12.
\<close>

type_synonym uuid = "128 word"

definition hexdigit :: "nat \<Rightarrow> char" where
  "hexdigit n = ''0123456789abcdef'' ! n"

definition hex32 :: "uuid \<Rightarrow> string" where
  "hex32 u = map (\<lambda>i. hexdigit (unat (drop_bit (4 * (31 - i)) u AND 15))) [0..<32]"

definition text_type_uuid :: "uuid \<Rightarrow> string" where
  "text_type_uuid u =
     (let h = hex32 u
      in take 8 h @ ''-'' @ take 4 (drop 8 h) @ ''-'' @ take 4 (drop 12 h) @ ''-''
         @ take 4 (drop 16 h) @ ''-'' @ drop 20 h)"

subsection \<open>Outbound shaping: the framework's \<^verbatim>\<open>to_representation\<close>\<close>

text \<open>
  A readable field has its name, its \<^verbatim>\<open>required\<close> flag, and the rendering of the
  source object: the attribute named by \<^verbatim>\<open>source\<close> (the field name when no source
  is given) is read, and a value that is not \<^verbatim>\<open>None\<close> goes through the field's own
  \<^verbatim>\<open>to_representation\<close>, which may raise when it is a nested serializer. No field of
  the file sets \<^verbatim>\<open>default\<close> or \<^verbatim>\<open>allow_null\<close>, so the two branches of the framework
  that look at them are never taken and are not modelled.
\<close>

record 'o rfield =
  field_name :: string
  required :: bool
  attribute :: "'o \<Rightarrow> (exn + json) lookup"

text \<open>
  \<^verbatim>\<open>Serializer.to_representation\<close>: for each declared field in order,
  \<^verbatim>\<open>field.get_attribute(instance)\<close>; a missing attribute raises \<^verbatim>\<open>SkipField\<close> (the
  field is left out) when the field is not required and the lookup error otherwise;
  \<^verbatim>\<open>None\<close> is emitted as \<^verbatim>\<open>None\<close>; anything else is rendered by the field.
  \<^verbatim>\<open>ret[name] = v\<close> on an ordered dictionary is \<^const>\<open>AList.update\<close>.
\<close>

fun to_representation_loop :: "'o rfield list \<Rightarrow> 'o \<Rightarrow> dict \<Rightarrow> exn + dict" where
  "to_representation_loop [] instance ret = Inr ret"
| "to_representation_loop (f # fs) instance ret =
     (case attribute f instance of
        Missing \<Rightarrow>
          (if required f then Inl (AttributeError (field_name f))
           else to_representation_loop fs instance ret)
      | PyNone \<Rightarrow>
          to_representation_loop fs instance (AList.update (field_name f) JNull ret)
      | Val (Inl e) \<Rightarrow> Inl e
      | Val (Inr v) \<Rightarrow>
          to_representation_loop fs instance (AList.update (field_name f) v ret))"

definition to_representation :: "'o rfield list \<Rightarrow> 'o \<Rightarrow> exn + dict" where
  "to_representation fs instance = to_representation_loop fs instance []"

text \<open>The field kinds used for output, each with its own \<^verbatim>\<open>to_representation\<close>.\<close>

definition CharField :: "string \<Rightarrow> bool \<Rightarrow> ('o \<Rightarrow> string lookup) \<Rightarrow> 'o rfield" where
  "CharField nm req src =
     \<lparr>field_name = nm, required = req, attribute = (\<lambda>obj. map_lookup (\<lambda>s. Inr (JStr s)) (src obj))\<rparr>"

definition BooleanField :: "string \<Rightarrow> bool \<Rightarrow> ('o \<Rightarrow> bool lookup) \<Rightarrow> 'o rfield" where
  "BooleanField nm req src =
     \<lparr>field_name = nm, required = req, attribute = (\<lambda>obj. map_lookup (\<lambda>b. Inr (JBool b)) (src obj))\<rparr>"

definition FloatField :: "string \<Rightarrow> bool \<Rightarrow> ('o \<Rightarrow> real lookup) \<Rightarrow> 'o rfield" where
  "FloatField nm req src =
     \<lparr>field_name = nm, required = req, attribute = (\<lambda>obj. map_lookup (\<lambda>x. Inr (JNum x)) (src obj))\<rparr>"

definition UUIDField :: "string \<Rightarrow> bool \<Rightarrow> ('o \<Rightarrow> uuid lookup) \<Rightarrow> 'o rfield" where
  "UUIDField nm req src =
     \<lparr>field_name = nm, required = req,
      attribute = (\<lambda>obj. map_lookup (\<lambda>u. Inr (JStr (text_type_uuid u))) (src obj))\<rparr>"

text \<open>
  \<^verbatim>\<open>ChoiceField.to_representation\<close> returns the empty string as it is and otherwise
  the choice the text of the value names, or the value itself when it names none: for
  a string value, the value in every case.
\<close>

definition ChoiceField :: "string \<Rightarrow> bool \<Rightarrow> string list \<Rightarrow> ('o \<Rightarrow> string lookup) \<Rightarrow> 'o rfield" where
  "ChoiceField nm req choices src =
     \<lparr>field_name = nm, required = req,
      attribute = (\<lambda>obj. map_lookup
        (\<lambda>s. Inr (JStr (if s = [] then s else dict_get (map (\<lambda>c. (c, c)) choices) s s))) (src obj))\<rparr>"

text \<open>
  \<^verbatim>\<open>DateTimeField\<close> prints a datetime in ISO 8601; the printing belongs to the
  standard library and is the parameter \<open>isoformat\<close>.
\<close>

definition DateTimeField :: "('dt \<Rightarrow> string) \<Rightarrow> string \<Rightarrow> bool \<Rightarrow> ('o \<Rightarrow> 'dt lookup) \<Rightarrow> 'o rfield" where
  "DateTimeField isoformat nm req src =
     \<lparr>field_name = nm, required = req, attribute = (\<lambda>obj. map_lookup (\<lambda>d. Inr (JStr (isoformat d))) (src obj))\<rparr>"

text \<open>
  \<^verbatim>\<open>SerializerMethodField\<close> reads the whole instance (never missing, never
  \<^verbatim>\<open>None\<close>) and emits what \<^verbatim>\<open>get_<field_name>\<close> returns.
\<close>

definition SerializerMethodField :: "string \<Rightarrow> ('o \<Rightarrow> json) \<Rightarrow> 'o rfield" where
  "SerializerMethodField nm method =
     \<lparr>field_name = nm, required = True, attribute = (\<lambda>obj. Val (Inr (method obj)))\<rparr>"

text \<open>
  \<^verbatim>\<open>ListField(child=S())\<close> renders every item of the list with the child serializer;
  the first item that raises ends the rendering.
\<close>

fun render_items :: "'i rfield list \<Rightarrow> 'i list \<Rightarrow> exn + json list" where
  "render_items child [] = Inr []"
| "render_items child (item # items) =
     (case to_representation child item of
        Inl e \<Rightarrow> Inl e
      | Inr d \<Rightarrow> (case render_items child items of Inl e \<Rightarrow> Inl e | Inr ds \<Rightarrow> Inr (JObj d # ds)))"

definition ListField :: "string \<Rightarrow> bool \<Rightarrow> 'i rfield list \<Rightarrow> ('o \<Rightarrow> 'i list lookup) \<Rightarrow> 'o rfield" where
  "ListField nm req child src =
     \<lparr>field_name = nm, required = req,
      attribute = (\<lambda>obj. map_lookup (\<lambda>items. map_sum id JList (render_items child items)) (src obj))\<rparr>"

subsection \<open>The records the output serializers read\<close>

text \<open>
  Modelled from the spec: the models \<^verbatim>\<open>ProgramEnrollment\<close> and
  \<^verbatim>\<open>ProgramCourseEnrollment\<close> are imported by the file and declared elsewhere. An
  enrollment record has an external key, a status, a linked identity that may be
  absent, and a curriculum UUID; a course enrollment has a status and its parent
  enrollment. The attributes are the ones the serializers read. A database row has
  all its attributes; the external key and the linked identity may be \<^verbatim>\<open>None\<close>.
  The attribute \<^verbatim>\<open>status\<close> of a course enrollment is the record field
  \<open>course_status\<close>, since a field name is declared once.
\<close>

datatype user = User nat

record program_enrollment =
  external_user_key :: "string option"
  status :: string
  user :: "user option"
  curriculum_uuid :: uuid

record program_course_enrollment =
  program_enrollment :: program_enrollment
  course_status :: string

text \<open>
  Modelled from the spec: the grade result \<^verbatim>\<open>BaseProgramCourseGrade\<close> (declared
  elsewhere) carries its course enrollment and two optional groups of attributes, the
  grade attributes of the Ok variant and the error message of the Error variant. An
  attribute of a plain Python object may be missing altogether.
\<close>

record program_course_grade =
  program_course_enrollment :: program_course_enrollment
  passed :: "bool lookup"
  percent :: "real lookup"
  letter_grade :: "string lookup"
  error :: "string lookup"

text \<open>
  Modelled from the spec: a due date and a course run overview are mappings with the
  keys the serializers declare; any key of a mapping may be missing or \<^verbatim>\<open>None\<close>.
  The keys \<^verbatim>\<open>name\<close>, \<^verbatim>\<open>url\<close> and \<^verbatim>\<open>date\<close> of a due date are the record fields
  \<open>due_name\<close>, \<open>due_url\<close> and \<open>due_date\<close>.
\<close>

record 'dt due_date =
  due_name :: "string lookup"
  due_url :: "string lookup"
  due_date :: "'dt lookup"

record 'dt course_run_overview =
  course_run_id :: "string lookup"
  display_name :: "string lookup"
  resume_course_run_url :: "string lookup"
  course_run_url :: "string lookup"
  start_date :: "'dt lookup"
  end_date :: "'dt lookup"
  course_run_status :: "string lookup"
  emails_enabled :: "bool lookup"
  due_dates :: "'dt due_date list lookup"
  micromasters_title :: "string lookup"
  certificate_download_url :: "string lookup"

record 'dt course_run_overview_list =
  course_runs :: "'dt course_run_overview list lookup"

text \<open>
  Modelled from the spec: \<^verbatim>\<open>CourseRunProgressStatuses\<close> lives in the module
  \<^verbatim>\<open>constants\<close>; its three values are the enum values of \<^verbatim>\<open>course_run_status\<close>.
\<close>

definition IN_PROGRESS :: string where "IN_PROGRESS = ''in_progress''"
definition UPCOMING :: string where "UPCOMING = ''upcoming''"
definition COMPLETED :: string where "COMPLETED = ''completed''"

subsection \<open>The output serializers of the file\<close>

text \<open>\<^verbatim>\<open>bool(x)\<close> of a record reference: \<^verbatim>\<open>None\<close> is false, a record is true.\<close>

definition py_bool :: "'a option \<Rightarrow> bool" where
  "py_bool x = (case x of None \<Rightarrow> False | Some _ \<Rightarrow> True)"

definition json_of_key :: "string option \<Rightarrow> json" where
  "json_of_key k = (case k of None \<Rightarrow> JNull | Some s \<Rightarrow> JStr s)"

definition ProgramEnrollmentSerializer_get_account_exists :: "program_enrollment \<Rightarrow> json" where
  "ProgramEnrollmentSerializer_get_account_exists obj = JBool (py_bool (user obj))"

definition ProgramEnrollmentSerializer :: "program_enrollment rfield list" where
  "ProgramEnrollmentSerializer =
     [CharField ''student_key'' True (\<lambda>obj. nullable (external_user_key obj)),
      CharField ''status'' True (\<lambda>obj. Val (status obj)),
      SerializerMethodField ''account_exists'' ProgramEnrollmentSerializer_get_account_exists,
      UUIDField ''curriculum_uuid'' True (\<lambda>obj. Val (curriculum_uuid obj))]"

definition ProgramCourseEnrollmentSerializer_get_student_key :: "program_course_enrollment \<Rightarrow> json" where
  "ProgramCourseEnrollmentSerializer_get_student_key obj =
     json_of_key (external_user_key (program_enrollment obj))"

definition ProgramCourseEnrollmentSerializer_get_account_exists :: "program_course_enrollment \<Rightarrow> json" where
  "ProgramCourseEnrollmentSerializer_get_account_exists obj =
     JBool (py_bool (user (program_enrollment obj)))"

definition ProgramCourseEnrollmentSerializer_get_curriculum_uuid :: "program_course_enrollment \<Rightarrow> json" where
  "ProgramCourseEnrollmentSerializer_get_curriculum_uuid obj =
     JStr (text_type_uuid (curriculum_uuid (program_enrollment obj)))"

definition ProgramCourseEnrollmentSerializer :: "program_course_enrollment rfield list" where
  "ProgramCourseEnrollmentSerializer =
     [SerializerMethodField ''student_key'' ProgramCourseEnrollmentSerializer_get_student_key,
      CharField ''status'' True (\<lambda>obj. Val (course_status obj)),
      SerializerMethodField ''account_exists'' ProgramCourseEnrollmentSerializer_get_account_exists,
      SerializerMethodField ''curriculum_uuid'' ProgramCourseEnrollmentSerializer_get_curriculum_uuid]"

definition ProgramCourseGradeSerializer_get_student_key :: "program_course_grade \<Rightarrow> json" where
  "ProgramCourseGradeSerializer_get_student_key obj =
     json_of_key (external_user_key (program_enrollment (program_course_enrollment obj)))"

definition ProgramCourseGradeSerializer :: "program_course_grade rfield list" where
  "ProgramCourseGradeSerializer =
     [SerializerMethodField ''student_key'' ProgramCourseGradeSerializer_get_student_key,
      BooleanField ''passed'' False passed,
      FloatField ''percent'' False percent,
      CharField ''letter_grade'' False letter_grade,
      CharField ''error'' False error]"

definition DueDateSerializer :: "('dt \<Rightarrow> string) \<Rightarrow> 'dt due_date rfield list" where
  "DueDateSerializer isoformat =
     [CharField ''name'' True due_name,
      CharField ''url'' True due_url,
      DateTimeField isoformat ''date'' True due_date]"

definition STATUS_CHOICES :: "string list" where
  "STATUS_CHOICES = [IN_PROGRESS, UPCOMING, COMPLETED]"

definition CourseRunOverviewSerializer :: "('dt \<Rightarrow> string) \<Rightarrow> 'dt course_run_overview rfield list" where
  "CourseRunOverviewSerializer isoformat =
     [CharField ''course_run_id'' True course_run_id,
      CharField ''display_name'' True display_name,
      CharField ''resume_course_run_url'' False resume_course_run_url,
      CharField ''course_run_url'' True course_run_url,
      DateTimeField isoformat ''start_date'' True start_date,
      DateTimeField isoformat ''end_date'' True end_date,
      ChoiceField ''course_run_status'' True STATUS_CHOICES course_run_status,
      BooleanField ''emails_enabled'' False emails_enabled,
      ListField ''due_dates'' True (DueDateSerializer isoformat) due_dates,
      CharField ''micromasters_title'' False micromasters_title,
      CharField ''certificate_download_url'' False certificate_download_url]"

definition CourseRunOverviewListSerializer :: "('dt \<Rightarrow> string) \<Rightarrow> 'dt course_run_overview_list rfield list" where
  "CourseRunOverviewListSerializer isoformat =
     [ListField ''course_runs'' True (CourseRunOverviewSerializer isoformat) course_runs]"

subsection \<open>Inbound shaping: request data and error messages\<close>

text \<open>
  A request body is a mapping from field names to JSON scalars. Text is a sequence of
  code points below 256; numbers are integers (a float would be accepted by a
  \<^verbatim>\<open>CharField\<close> in the same way as an integer, through its printed form). Nested
  lists and objects are not modelled.
\<close>

datatype raw = RNull | RBool bool | RInt int | RStr string

type_synonym request = "(string \<times> raw) list"

fun digits :: "nat \<Rightarrow> string" where
  "digits n = (if n < 10 then [char_of (48 + n)] else digits (n div 10) @ [char_of (48 + n mod 10)])"

declare digits.simps [simp del]

definition str_of_int :: "int \<Rightarrow> string" where
  "str_of_int i = (if i < 0 then CHR ''-'' # digits (nat (- i)) else digits (nat i))"

text \<open>\<^verbatim>\<open>six.text_type(data)\<close>.\<close>

fun text_type :: "raw \<Rightarrow> string" where
  "text_type RNull = ''None''"
| "text_type (RBool b) = (if b then ''True'' else ''False'')"
| "text_type (RInt i) = str_of_int i"
| "text_type (RStr s) = s"

text \<open>
  \<^verbatim>\<open>str.isspace\<close> on the code points below 256, and \<^verbatim>\<open>str.strip()\<close>, which removes
  the white space at both ends.
\<close>

definition isspace :: "char \<Rightarrow> bool" where
  "isspace c = (let n = (of_char c :: nat)
                in (9 \<le> n \<and> n \<le> 13) \<or> (28 \<le> n \<and> n \<le> 32) \<or> n = 133 \<or> n = 160)"

definition strip :: "string \<Rightarrow> string" where
  "strip s = rev (dropWhile isspace (rev (dropWhile isspace s)))"

text \<open>
  \<^verbatim>\<open>self.fail(key)\<close> raises a \<^verbatim>\<open>ValidationError\<close> whose detail is one error with the
  code \<open>key\<close> and the field's message for it (here the framework's English default;
  no property below depends on the wording).
\<close>

definition fail :: "string \<Rightarrow> string \<Rightarrow> error_detail list" where
  "fail key msg = [\<lparr>message = msg, code = key\<rparr>]"

text \<open>
  The validated values of the request fields: text and UUIDs. Validating one field
  gives a value, raises a \<^verbatim>\<open>ValidationError\<close> with its detail, or raises
  \<^verbatim>\<open>SkipField\<close>.
\<close>

datatype pyvalue = VStr string | VUUID uuid

datatype outcome = Valid pyvalue | Invalid "error_detail list" | Skip

type_synonym validated = "(string \<times> pyvalue) list"

subsection \<open>Inbound shaping: the framework's field validation\<close>

text \<open>
  \<^verbatim>\<open>Field.validate_empty_values\<close> for a field without default, with
  \<^verbatim>\<open>allow_null=False\<close>, in a serializer that is not partial: a missing key fails with
  \<^verbatim>\<open>required\<close> when the field is required and skips the field otherwise;
  \<^verbatim>\<open>None\<close> fails with \<^verbatim>\<open>null\<close>. The result \<open>Inr data\<close> hands the data on to
  \<^verbatim>\<open>to_internal_value\<close>.
\<close>

definition validate_empty_values :: "bool \<Rightarrow> raw option \<Rightarrow> outcome + raw" where
  "validate_empty_values req data =
     (case data of
        None \<Rightarrow> if req then Inl (Invalid (fail ''required'' ''This field is required.'')) else Inl Skip
      | Some RNull \<Rightarrow> Inl (Invalid (fail ''null'' ''This field may not be null.''))
      | Some d \<Rightarrow> Inr d)"

text \<open>
  \<^verbatim>\<open>CharField.to_internal_value\<close>: booleans are refused, text and numbers are
  printed and stripped (\<^verbatim>\<open>trim_whitespace\<close> is left at its default, true).
\<close>

definition CharField_to_internal_value :: "raw \<Rightarrow> outcome" where
  "CharField_to_internal_value data =
     (case data of
        RBool _ \<Rightarrow> Invalid (fail ''invalid'' ''Not a valid string.'')
      | RNull \<Rightarrow> Invalid (fail ''invalid'' ''Not a valid string.'')
      | _ \<Rightarrow> Valid (VStr (strip (text_type data))))"

text \<open>
  The one validator of a \<^verbatim>\<open>CharField\<close> without length bounds,
  \<^verbatim>\<open>ProhibitNullCharactersValidator\<close> (present since Django 2.0); \<^verbatim>\<open>run_validators\<close>
  collects the errors of the validators that fail.
\<close>

definition CharField_run_validators :: "string \<Rightarrow> error_detail list" where
  "CharField_run_validators v =
     (if CHR 0x00 \<in> set v
      then fail ''null_characters_not_allowed'' ''Null characters are not allowed.''
      else [])"

text \<open>
  \<^verbatim>\<open>CharField.run_validation\<close> tests for the blank string first
  (\<^verbatim>\<open>data == '' or text_type(data).strip() == ''\<close>), before the checks for a missing
  key and for \<^verbatim>\<open>None\<close>; the text of the marker for a missing key is not blank.
\<close>

definition CharField_run_validation :: "bool \<Rightarrow> bool \<Rightarrow> raw option \<Rightarrow> outcome" where
  "CharField_run_validation req allow_blank data =
     (if data = Some (RStr []) \<or> (case data of None \<Rightarrow> False | Some d \<Rightarrow> strip (text_type d) = [])
      then (if \<not> allow_blank then Invalid (fail ''blank'' ''This field may not be blank.'')
            else Valid (VStr []))
      else (case validate_empty_values req data of
              Inl out \<Rightarrow> out
            | Inr d \<Rightarrow>
                (case CharField_to_internal_value d of
                   Valid (VStr v) \<Rightarrow>
                     (if CharField_run_validators v = [] then Valid (VStr v)
                      else Invalid (CharField_run_validators v))
                 | out \<Rightarrow> out)))"

text \<open>
  \<^verbatim>\<open>UUIDField.to_internal_value\<close> builds a \<^verbatim>\<open>uuid.UUID\<close> from a string of
  hexadecimal digits or from an integer (a boolean is an integer in Python, so
  \<^verbatim>\<open>True\<close> gives the UUID with the integer value 1); the construction belongs to the
  standard library and is the parameter \<open>parse\<close>, which gives \<^verbatim>\<open>None\<close> where the
  library raises \<^verbatim>\<open>ValueError\<close>. The field's message for the code \<^verbatim>\<open>invalid\<close> is
  \<^verbatim>\<open>Must be a valid UUID.\<close>
\<close>

definition dquote :: string where
  "dquote = [CHR 0x22]"

definition UUIDField_run_validation :: "(raw \<Rightarrow> uuid option) \<Rightarrow> bool \<Rightarrow> raw option \<Rightarrow> outcome" where
  "UUIDField_run_validation parse req data =
     (case validate_empty_values req data of
        Inl out \<Rightarrow> out
      | Inr d \<Rightarrow>
          (case parse d of
             None \<Rightarrow> Invalid (fail ''invalid'' ''Must be a valid UUID.'')
           | Some u \<Rightarrow> Valid (VUUID u)))"

text \<open>
  \<^verbatim>\<open>ChoiceField.to_internal_value\<close> accepts the empty string when blanks are allowed
  and otherwise looks the text of the data up among the choices.
\<close>

definition ChoiceField_run_validation :: "string list \<Rightarrow> bool \<Rightarrow> bool \<Rightarrow> raw option \<Rightarrow> outcome" where
  "ChoiceField_run_validation choices req allow_blank data =
     (case validate_empty_values req data of
        Inl out \<Rightarrow> out
      | Inr d \<Rightarrow>
          (if d = RStr [] \<and> allow_blank then Valid (VStr [])
           else (case map_of (map (\<lambda>c. (c, c)) choices) (text_type d) of
                   Some c \<Rightarrow> Valid (VStr c)
                 | None \<Rightarrow>
                     Invalid (fail ''invalid_choice''
                       (dquote @ text_type d @ dquote @ '' is not a valid choice.'')))))"

subsection \<open>Inbound shaping: the framework's \<^verbatim>\<open>to_internal_value\<close>\<close>

text \<open>
  A writable field: its name on the wire, the key it is stored under (\<^verbatim>\<open>source\<close>,
  the field name when none is given) and its validation.
\<close>

record wfield =
  wire_name :: string
  source :: string
  run_validation :: "raw option \<Rightarrow> outcome"

text \<open>
  \<^verbatim>\<open>Serializer.to_internal_value\<close>: each field validates
  \<^verbatim>\<open>data.get(field_name, empty)\<close>; a value is stored under the field's source, an
  error detail under the field's name; errors, if any, are raised together at the end.
\<close>

fun to_internal_value_loop :: "wfield list \<Rightarrow> request \<Rightarrow> validated \<Rightarrow> errors \<Rightarrow> errors + validated" where
  "to_internal_value_loop [] data ret errs = (if errs \<noteq> [] then Inl errs else Inr ret)"
| "to_internal_value_loop (f # fs) data ret errs =
     (case run_validation f (map_of data (wire_name f)) of
        Valid v \<Rightarrow> to_internal_value_loop fs data (AList.update (source f) v ret) errs
      | Invalid detail \<Rightarrow> to_internal_value_loop fs data ret (AList.update (wire_name f) detail errs)
      | Skip \<Rightarrow> to_internal_value_loop fs data ret errs)"

definition to_internal_value :: "wfield list \<Rightarrow> request \<Rightarrow> errors + validated" where
  "to_internal_value fs data = to_internal_value_loop fs data [] []"

text \<open>
  \<^verbatim>\<open>is_valid()\<close> runs the validation of a mapping and keeps either the validated data
  or the error report; \<^verbatim>\<open>errors\<close> is empty after a successful validation. The
  serializers of the file declare no validators of their own and do not override
  \<^verbatim>\<open>validate\<close>, so \<^verbatim>\<open>Serializer.run_validation\<close> of a mapping is
  \<^verbatim>\<open>to_internal_value\<close>.
\<close>

definition errors_of :: "errors + validated \<Rightarrow> errors" where
  "errors_of r = (case r of Inl errs \<Rightarrow> errs | Inr _ \<Rightarrow> [])"

definition is_valid :: "wfield list \<Rightarrow> request \<Rightarrow> bool" where
  "is_valid fs data = (errors_of (to_internal_value fs data) = [])"

subsection \<open>The request serializers of the file\<close>

definition CharField_in :: "string \<Rightarrow> bool \<Rightarrow> string \<Rightarrow> wfield" where
  "CharField_in nm allow_blank src =
     \<lparr>wire_name = nm, source = src, run_validation = CharField_run_validation True allow_blank\<rparr>"

definition UUIDField_in :: "(raw \<Rightarrow> uuid option) \<Rightarrow> string \<Rightarrow> wfield" where
  "UUIDField_in parse nm =
     \<lparr>wire_name = nm, source = nm, run_validation = UUIDField_run_validation parse True\<rparr>"

definition ChoiceField_in :: "string \<Rightarrow> bool \<Rightarrow> string list \<Rightarrow> wfield" where
  "ChoiceField_in nm allow_blank choices =
     \<lparr>wire_name = nm, source = nm, run_validation = ChoiceField_run_validation choices True allow_blank\<rparr>"

definition ProgramEnrollmentRequestMixin :: "wfield list" where
  "ProgramEnrollmentRequestMixin =
     [CharField_in ''student_key'' False ''external_user_key'',
      CharField_in ''status'' False ''status'']"

text \<open>A subclass keeps the fields of its base class first and adds its own.\<close>

definition ProgramEnrollmentCreateRequestSerializer :: "(raw \<Rightarrow> uuid option) \<Rightarrow> wfield list" where
  "ProgramEnrollmentCreateRequestSerializer parse =
     ProgramEnrollmentRequestMixin @ [UUIDField_in parse ''curriculum_uuid'']"

definition ProgramEnrollmentUpdateRequestSerializer :: "wfield list" where
  "ProgramEnrollmentUpdateRequestSerializer = ProgramEnrollmentRequestMixin"

definition ProgramCourseEnrollmentRequestSerializer :: "wfield list" where
  "ProgramCourseEnrollmentRequestSerializer =
     [CharField_in ''student_key'' False ''external_user_key'',
      CharField_in ''status'' False ''status'']"

text \<open>
  The declaration of \<^verbatim>\<open>course_run_status\<close> in \<^verbatim>\<open>CourseRunOverviewSerializer\<close>, read
  as a writable field.
\<close>

definition course_run_status_field :: wfield where
  "course_run_status_field = ChoiceField_in ''course_run_status'' False STATUS_CHOICES"

text \<open>The four request serializers, for statements about all of them.\<close>

definition request_serializers :: "(raw \<Rightarrow> uuid option) \<Rightarrow> wfield list list" where
  "request_serializers parse =
     [ProgramEnrollmentRequestMixin, ProgramEnrollmentCreateRequestSerializer parse,
      ProgramEnrollmentUpdateRequestSerializer, ProgramCourseEnrollmentRequestSerializer]"

section \<open>Properties\<close>

lemma status_error_loop_iff:
  "status_error_loop es \<longleftrightarrow> (\<exists>e \<in> set es. code e = ''invalid_choice'')"
  by (induction es) auto

text \<open>
  Claim C1. On every error report, \<^verbatim>\<open>has_invalid_status\<close> is true exactly when the
  list recorded under the field \<^verbatim>\<open>status\<close> holds an error whose code is
  \<^verbatim>\<open>invalid_choice\<close>. Errors recorded under other fields are never looked at, and
  other codes under \<^verbatim>\<open>status\<close> do not count.
\<close>

theorem has_invalid_status_iff:
  "has_invalid_status errs \<longleftrightarrow>
     (\<exists>es. map_of errs ''status'' = Some es \<and> (\<exists>e \<in> set es. code e = ''invalid_choice''))"
  by (cases "map_of errs ''status''")
     (simp_all add: has_invalid_status_def dict_get_def status_error_loop_iff)

theorem has_invalid_status_iff_witness:
  "has_invalid_status
     [(''student_key'', [\<lparr>message = ''x'', code = ''invalid_choice''\<rparr>]),
      (''status'', [\<lparr>message = ''y'', code = ''blank''\<rparr>, \<lparr>message = ''z'', code = ''invalid_choice''\<rparr>])]
   \<and> \<not> has_invalid_status
     [(''student_key'', [\<lparr>message = ''x'', code = ''invalid_choice''\<rparr>]),
      (''status'', [\<lparr>message = ''y'', code = ''blank''\<rparr>])]
   \<and> \<not> has_invalid_status []"
  using has_invalid_status_iff
    [of "[(''student_key'', [\<lparr>message = ''x'', code = ''invalid_choice''\<rparr>]),
          (''status'', [\<lparr>message = ''y'', code = ''blank''\<rparr>, \<lparr>message = ''z'', code = ''invalid_choice''\<rparr>])]"]
    has_invalid_status_iff
    [of "[(''student_key'', [\<lparr>message = ''x'', code = ''invalid_choice''\<rparr>]),
          (''status'', [\<lparr>message = ''y'', code = ''blank''\<rparr>])]"]
    has_invalid_status_iff [of "[]"]
  by simp

subsection \<open>Outbound shaping\<close>

lemmas field_defs = CharField_def BooleanField_def FloatField_def UUIDField_def ChoiceField_def
  DateTimeField_def SerializerMethodField_def ListField_def

lemma to_representation_loop_other:
  "to_representation_loop fs obj ret = Inr d \<Longrightarrow> k \<notin> field_name ` set fs \<Longrightarrow> map_of d k = map_of ret k"
proof (induction fs arbitrary: ret)
  case Nil
  then show ?case by simp
next
  case (Cons f fs)
  then show ?case
    by (auto simp: update_conv' split: lookup.splits sum.splits if_splits)
qed

lemma to_representation_loop_field:
  assumes "to_representation_loop fs obj ret = Inr d" "distinct (map field_name fs)" "f \<in> set fs"
  shows "(attribute f obj = Missing \<longrightarrow> \<not> required f \<and> map_of d (field_name f) = map_of ret (field_name f))
       \<and> (attribute f obj = PyNone \<longrightarrow> map_of d (field_name f) = Some JNull)
       \<and> (\<forall>r. attribute f obj = Val r \<longrightarrow> (\<exists>v. r = Inr v \<and> map_of d (field_name f) = Some v))"
  using assms
proof (induction fs arbitrary: ret)
  case Nil
  then show ?case by simp
next
  case (Cons g fs)
  show ?case
  proof (cases "f = g")
    case True
    with Cons.prems have nk: "field_name f \<notin> field_name ` set fs" by auto
    show ?thesis
    proof (cases "attribute f obj")
      case Missing
      with Cons.prems(1) True have "\<not> required f" "to_representation_loop fs obj ret = Inr d"
        by (auto split: if_splits)
      with Missing nk show ?thesis
        by (simp add: to_representation_loop_other)
    next
      case PyNone
      with Cons.prems(1) True
      have "to_representation_loop fs obj (AList.update (field_name f) JNull ret) = Inr d" by simp
      from to_representation_loop_other [OF this nk] PyNone show ?thesis
        by (simp add: update_conv')
    next
      case (Val r)
      show ?thesis
      proof (cases r)
        case (Inl e)
        with Val Cons.prems(1) True show ?thesis by simp
      next
        case (Inr v)
        with Val Cons.prems(1) True
        have "to_representation_loop fs obj (AList.update (field_name f) v ret) = Inr d" by simp
        from to_representation_loop_other [OF this nk] Val Inr show ?thesis
          by (simp add: update_conv')
      qed
    qed
  next
    case False
    with Cons.prems have f: "f \<in> set fs" and dist: "distinct (map field_name fs)"
      and "field_name g \<notin> field_name ` set fs" by auto
    then have ne: "field_name f \<noteq> field_name g" by (metis imageI)
    from Cons.prems(1) obtain ret' where
      step: "to_representation_loop fs obj ret' = Inr d"
      and ret': "ret' = ret \<or> (\<exists>v. ret' = AList.update (field_name g) v ret)"
      by (auto split: lookup.splits sum.splits if_splits)
    from ret' ne have "map_of ret' (field_name f) = map_of ret (field_name f)"
      by (auto simp: update_conv')
    with Cons.IH [OF step dist f] show ?thesis by simp
  qed
qed

lemma output_serializers_distinct:
  "distinct (map field_name ProgramEnrollmentSerializer)"
  "distinct (map field_name ProgramCourseEnrollmentSerializer)"
  "distinct (map field_name ProgramCourseGradeSerializer)"
  "distinct (map field_name (DueDateSerializer isoformat))"
  "distinct (map field_name (CourseRunOverviewSerializer isoformat))"
  "distinct (map field_name (CourseRunOverviewListSerializer isoformat))"
  by (simp_all add: ProgramEnrollmentSerializer_def ProgramCourseEnrollmentSerializer_def
      ProgramCourseGradeSerializer_def DueDateSerializer_def CourseRunOverviewSerializer_def
      CourseRunOverviewListSerializer_def field_defs)

lemma ProgramEnrollmentSerializer_output:
  "to_representation ProgramEnrollmentSerializer obj =
     Inr [(''student_key'', json_of_key (external_user_key obj)),
          (''status'', JStr (status obj)),
          (''account_exists'', JBool (user obj \<noteq> None)),
          (''curriculum_uuid'', JStr (text_type_uuid (curriculum_uuid obj)))]"
  by (cases "external_user_key obj"; cases "user obj")
     (simp_all add: to_representation_def ProgramEnrollmentSerializer_def field_defs nullable_def
        json_of_key_def py_bool_def ProgramEnrollmentSerializer_get_account_exists_def)

lemma ProgramCourseEnrollmentSerializer_output:
  "to_representation ProgramCourseEnrollmentSerializer obj =
     Inr [(''student_key'', json_of_key (external_user_key (program_enrollment obj))),
          (''status'', JStr (course_status obj)),
          (''account_exists'', JBool (user (program_enrollment obj) \<noteq> None)),
          (''curriculum_uuid'', JStr (text_type_uuid (curriculum_uuid (program_enrollment obj))))]"
  by (cases "user (program_enrollment obj)")
     (simp_all add: to_representation_def ProgramCourseEnrollmentSerializer_def field_defs
        py_bool_def ProgramCourseEnrollmentSerializer_get_account_exists_def
        ProgramCourseEnrollmentSerializer_get_student_key_def
        ProgramCourseEnrollmentSerializer_get_curriculum_uuid_def)

text \<open>
  Claim C3. Both enrollment views always render, and the \<^verbatim>\<open>account_exists\<close> they
  emit is the boolean "the record has a linked user": \<^verbatim>\<open>obj.user\<close> for a program
  enrollment, \<^verbatim>\<open>obj.program_enrollment.user\<close> for a course enrollment.
\<close>

theorem account_exists_iff_linked_user:
  "(\<exists>d. to_representation ProgramEnrollmentSerializer pe = Inr d
        \<and> map_of d ''account_exists'' = Some (JBool (user pe \<noteq> None)))
   \<and> (\<exists>d. to_representation ProgramCourseEnrollmentSerializer ce = Inr d
        \<and> map_of d ''account_exists'' = Some (JBool (user (program_enrollment ce) \<noteq> None)))"
  by (simp add: ProgramEnrollmentSerializer_output ProgramCourseEnrollmentSerializer_output)

theorem account_exists_iff_linked_user_witness:
  "(\<exists>d. to_representation ProgramEnrollmentSerializer
          \<lparr>external_user_key = Some ''learner-1'', status = ''enrolled'', user = Some (User 7),
           curriculum_uuid = 5\<rparr> = Inr d
        \<and> map_of d ''account_exists'' = Some (JBool True))
   \<and> (\<exists>d. to_representation ProgramCourseEnrollmentSerializer
          \<lparr>program_enrollment =
             \<lparr>external_user_key = Some ''learner-2'', status = ''pending'', user = None,
              curriculum_uuid = 5\<rparr>,
           course_status = ''active''\<rparr> = Inr d
        \<and> map_of d ''account_exists'' = Some (JBool False))"
  using account_exists_iff_linked_user
    [of "\<lparr>external_user_key = Some ''learner-1'', status = ''enrolled'', user = Some (User 7),
           curriculum_uuid = 5\<rparr>"
        "\<lparr>program_enrollment =
             \<lparr>external_user_key = Some ''learner-2'', status = ''pending'', user = None,
              curriculum_uuid = 5\<rparr>,
           course_status = ''active''\<rparr>"]
  by simp

text \<open>
  Claim C4. A grade source of the Ok variant (the three grade attributes set, no
  \<^verbatim>\<open>error\<close> attribute) with \<^verbatim>\<open>passed=True\<close>, \<^verbatim>\<open>percent=0.95\<close> and
  \<^verbatim>\<open>letter_grade="A"\<close> is rendered as exactly four entries: \<^verbatim>\<open>student_key\<close>, which is
  the external key of the program enrollment of the course enrollment, and the three
  grade fields. There is no \<^verbatim>\<open>error\<close> entry.
\<close>

theorem grade_ok_output:
  assumes "passed g = Val True" "percent g = Val (95 / 100)" "letter_grade g = Val ''A''"
    "error g = Missing"
  shows "to_representation ProgramCourseGradeSerializer g =
     Inr [(''student_key'',
           json_of_key (external_user_key (program_enrollment (program_course_enrollment g)))),
          (''passed'', JBool True), (''percent'', JNum (95 / 100)), (''letter_grade'', JStr ''A'')]"
  using assms
  by (simp add: to_representation_def ProgramCourseGradeSerializer_def field_defs
        ProgramCourseGradeSerializer_get_student_key_def)

theorem grade_ok_output_witness:
  "to_representation ProgramCourseGradeSerializer
     \<lparr>program_course_enrollment =
        \<lparr>program_enrollment =
           \<lparr>external_user_key = Some ''learner-1'', status = ''enrolled'', user = None,
            curriculum_uuid = 5\<rparr>,
         course_status = ''active''\<rparr>,
      passed = Val True, percent = Val (95 / 100), letter_grade = Val ''A'', error = Missing\<rparr>
   = Inr [(''student_key'', JStr ''learner-1''), (''passed'', JBool True),
          (''percent'', JNum (95 / 100)), (''letter_grade'', JStr ''A'')]"
  using grade_ok_output
    [of "\<lparr>program_course_enrollment =
        \<lparr>program_enrollment =
           \<lparr>external_user_key = Some ''learner-1'', status = ''enrolled'', user = None,
            curriculum_uuid = 5\<rparr>,
         course_status = ''active''\<rparr>,
      passed = Val True, percent = Val (95 / 100), letter_grade = Val ''A'', error = Missing\<rparr>"]
  by (simp add: json_of_key_def)

text \<open>
  Claim C5. A grade source of the Error variant (an \<^verbatim>\<open>error\<close> attribute, none of the
  grade attributes) is rendered as exactly two entries, \<^verbatim>\<open>student_key\<close> and
  \<^verbatim>\<open>error\<close>.
\<close>

theorem grade_error_output:
  assumes "error g = Val msg" "passed g = Missing" "percent g = Missing" "letter_grade g = Missing"
  shows "to_representation ProgramCourseGradeSerializer g =
     Inr [(''student_key'',
           json_of_key (external_user_key (program_enrollment (program_course_enrollment g)))),
          (''error'', JStr msg)]"
  using assms
  by (simp add: to_representation_def ProgramCourseGradeSerializer_def field_defs
        ProgramCourseGradeSerializer_get_student_key_def)

theorem grade_error_output_witness:
  "to_representation ProgramCourseGradeSerializer
     \<lparr>program_course_enrollment =
        \<lparr>program_enrollment =
           \<lparr>external_user_key = Some ''learner-1'', status = ''enrolled'', user = None,
            curriculum_uuid = 5\<rparr>,
         course_status = ''active''\<rparr>,
      passed = Missing, percent = Missing, letter_grade = Missing,
      error = Val ''Unknown error''\<rparr>
   = Inr [(''student_key'', JStr ''learner-1''), (''error'', JStr ''Unknown error'')]"
  using grade_error_output
    [of "\<lparr>program_course_enrollment =
        \<lparr>program_enrollment =
           \<lparr>external_user_key = Some ''learner-1'', status = ''enrolled'', user = None,
            curriculum_uuid = 5\<rparr>,
         course_status = ''active''\<rparr>,
      passed = Missing, percent = Missing, letter_grade = Missing,
      error = Val ''Unknown error''\<rparr>" "''Unknown error''"]
  by (simp add: json_of_key_def)

text \<open>
  Claim C9. Nothing in the grade serializer makes the two groups exclusive: when the
  grade attributes and the \<^verbatim>\<open>error\<close> attribute are all set, all of them are emitted
  side by side, after \<^verbatim>\<open>student_key\<close>.
\<close>

theorem grade_both_groups_output:
  assumes "passed g = Val p" "percent g = Val x" "letter_grade g = Val l" "error g = Val msg"
  shows "to_representation ProgramCourseGradeSerializer g =
     Inr [(''student_key'',
           json_of_key (external_user_key (program_enrollment (program_course_enrollment g)))),
          (''passed'', JBool p), (''percent'', JNum x), (''letter_grade'', JStr l),
          (''error'', JStr msg)]"
  using assms
  by (simp add: to_representation_def ProgramCourseGradeSerializer_def field_defs
        ProgramCourseGradeSerializer_get_student_key_def)

theorem grade_both_groups_output_witness:
  "to_representation ProgramCourseGradeSerializer
     \<lparr>program_course_enrollment =
        \<lparr>program_enrollment =
           \<lparr>external_user_key = Some ''learner-1'', status = ''enrolled'', user = None,
            curriculum_uuid = 5\<rparr>,
         course_status = ''active''\<rparr>,
      passed = Val True, percent = Val (95 / 100), letter_grade = Val ''A'',
      error = Val ''Unknown error''\<rparr>
   = Inr [(''student_key'', JStr ''learner-1''), (''passed'', JBool True),
          (''percent'', JNum (95 / 100)), (''letter_grade'', JStr ''A''),
          (''error'', JStr ''Unknown error'')]"
  using grade_both_groups_output
    [of "\<lparr>program_course_enrollment =
        \<lparr>program_enrollment =
           \<lparr>external_user_key = Some ''learner-1'', status = ''enrolled'', user = None,
            curriculum_uuid = 5\<rparr>,
         course_status = ''active''\<rparr>,
      passed = Val True, percent = Val (95 / 100), letter_grade = Val ''A'',
      error = Val ''Unknown error''\<rparr>" True "95 / 100" "''A''" "''Unknown error''"]
  by (simp add: json_of_key_def)

text \<open>
  Claim C8, as stated, fails: an optional field whose attribute exists and is
  \<^verbatim>\<open>None\<close> is emitted, with the value null. Here a grade without a letter
  (\<^verbatim>\<open>letter_grade = None\<close>) is rendered with \<^verbatim>\<open>letter_grade\<close> among its entries.
\<close>

theorem optional_none_counterexample:
  "to_representation ProgramCourseGradeSerializer
     \<lparr>program_course_enrollment =
        \<lparr>program_enrollment =
           \<lparr>external_user_key = Some ''learner-1'', status = ''enrolled'', user = None,
            curriculum_uuid = 5\<rparr>,
         course_status = ''active''\<rparr>,
      passed = Val False, percent = Val (40 / 100), letter_grade = PyNone, error = Missing\<rparr>
   = Inr [(''student_key'', JStr ''learner-1''), (''passed'', JBool False),
          (''percent'', JNum (40 / 100)), (''letter_grade'', JNull)]"
  by (simp add: to_representation_def ProgramCourseGradeSerializer_def field_defs
        ProgramCourseGradeSerializer_get_student_key_def json_of_key_def)

text \<open>
  Claim C8, amended. For every serializer whose field names are distinct (all
  serializers of the file) and every mapping it emits: a declared field whose attribute
  is missing on the source is an optional field and has no entry at all; a field whose
  attribute is \<^verbatim>\<open>None\<close> has an entry with the value null; a field whose attribute
  holds a value has an entry with the rendering of that value.
\<close>

theorem optional_field_rendering:
  assumes "to_representation fs obj = Inr d" "distinct (map field_name fs)" "f \<in> set fs"
  shows "(attribute f obj = Missing \<longrightarrow> \<not> required f \<and> field_name f \<notin> fst ` set d)
       \<and> (attribute f obj = PyNone \<longrightarrow> map_of d (field_name f) = Some JNull)
       \<and> (\<forall>r. attribute f obj = Val r \<longrightarrow> (\<exists>v. r = Inr v \<and> map_of d (field_name f) = Some v))"
  using to_representation_loop_field [of fs obj "[]" d f] assms
  by (simp add: to_representation_def map_of_eq_None_iff)

theorem optional_field_rendering_witness:
  "to_representation ProgramCourseGradeSerializer
     \<lparr>program_course_enrollment =
        \<lparr>program_enrollment =
           \<lparr>external_user_key = Some ''learner-1'', status = ''enrolled'', user = None,
            curriculum_uuid = 5\<rparr>,
         course_status = ''active''\<rparr>,
      passed = Val False, percent = Val (40 / 100), letter_grade = PyNone, error = Missing\<rparr>
   = Inr [(''student_key'', JStr ''learner-1''), (''passed'', JBool False),
          (''percent'', JNum (40 / 100)), (''letter_grade'', JNull)]
   \<and> distinct (map field_name ProgramCourseGradeSerializer)
   \<and> CharField ''error'' False error \<in> set ProgramCourseGradeSerializer
   \<and> CharField ''letter_grade'' False letter_grade \<in> set ProgramCourseGradeSerializer
   \<and> ''error'' \<notin> fst ` set [(''student_key'', JStr ''learner-1''), (''passed'', JBool False),
          (''percent'', JNum (40 / 100)), (''letter_grade'', JNull)]
   \<and> map_of [(''student_key'', JStr ''learner-1''), (''passed'', JBool False),
          (''percent'', JNum (40 / 100)), (''letter_grade'', JNull)] ''letter_grade'' = Some JNull"
proof -
  let ?g = "\<lparr>program_course_enrollment =
        \<lparr>program_enrollment =
           \<lparr>external_user_key = Some ''learner-1'', status = ''enrolled'', user = None,
            curriculum_uuid = 5\<rparr>,
         course_status = ''active''\<rparr>,
      passed = Val False, percent = Val (40 / 100), letter_grade = PyNone, error = Missing\<rparr>"
  let ?d = "[(''student_key'', JStr ''learner-1''), (''passed'', JBool False),
          (''percent'', JNum (40 / 100)), (''letter_grade'', JNull)]"
  have out: "to_representation ProgramCourseGradeSerializer ?g = Inr ?d"
    by (simp add: to_representation_def ProgramCourseGradeSerializer_def field_defs
        ProgramCourseGradeSerializer_get_student_key_def json_of_key_def)
  have dist: "distinct (map field_name ProgramCourseGradeSerializer)"
    by (simp add: ProgramCourseGradeSerializer_def field_defs)
  have e: "CharField ''error'' False error \<in> set ProgramCourseGradeSerializer"
    and l: "CharField ''letter_grade'' False letter_grade \<in> set ProgramCourseGradeSerializer"
    by (simp_all add: ProgramCourseGradeSerializer_def)
  from optional_field_rendering [OF out dist e] optional_field_rendering [OF out dist l]
  show ?thesis using out dist e l by (simp add: field_defs)
qed

subsection \<open>Inbound shaping\<close>

lemma update_not_Nil: "AList.update k v al \<noteq> []"
  by (cases al) auto

lemma to_internal_value_loop_other:
  "to_internal_value_loop fs data ret errs = Inl e \<Longrightarrow> k \<notin> wire_name ` set fs \<Longrightarrow> map_of e k = map_of errs k"
proof (induction fs arbitrary: ret errs)
  case Nil
  then show ?case by (simp split: if_splits)
next
  case (Cons f fs)
  then show ?case
    by (auto simp: update_conv' split: outcome.splits)
qed

lemma to_internal_value_loop_raises:
  "errs \<noteq> [] \<Longrightarrow> \<exists>e. to_internal_value_loop fs data ret errs = Inl e"
proof (induction fs arbitrary: ret errs)
  case Nil
  then show ?case by simp
next
  case (Cons f fs)
  then show ?case
    by (cases "run_validation f (map_of data (wire_name f))") (simp_all add: update_not_Nil)
qed

lemma to_internal_value_loop_invalid:
  assumes "distinct (map wire_name fs)" "f \<in> set fs"
    "run_validation f (map_of data (wire_name f)) = Invalid detail"
  shows "\<exists>e. to_internal_value_loop fs data ret errs = Inl e \<and> map_of e (wire_name f) = Some detail"
  using assms
proof (induction fs arbitrary: ret errs)
  case Nil
  then show ?case by simp
next
  case (Cons g fs)
  show ?case
  proof (cases "f = g")
    case True
    with Cons.prems have nk: "wire_name f \<notin> wire_name ` set fs" by auto
    obtain e where e: "to_internal_value_loop fs data ret (AList.update (wire_name f) detail errs) = Inl e"
      using to_internal_value_loop_raises [OF update_not_Nil] by blast
    from to_internal_value_loop_other [OF e nk] have "map_of e (wire_name f) = Some detail"
      by (simp add: update_conv')
    with e True Cons.prems(3) show ?thesis by simp
  next
    case False
    with Cons.prems have "f \<in> set fs" "distinct (map wire_name fs)" by auto
    from Cons.IH [OF this(2) this(1) Cons.prems(3)] show ?thesis
      by (cases "run_validation g (map_of data (wire_name g))") simp_all
  qed
qed

lemma to_internal_value_loop_not_invalid:
  assumes "to_internal_value_loop fs data ret errs = Inl e" "distinct (map wire_name fs)" "f \<in> set fs"
    "\<forall>detail. run_validation f (map_of data (wire_name f)) \<noteq> Invalid detail"
  shows "map_of e (wire_name f) = map_of errs (wire_name f)"
  using assms
proof (induction fs arbitrary: ret errs)
  case Nil
  then show ?case by simp
next
  case (Cons g fs)
  show ?case
  proof (cases "f = g")
    case True
    with Cons.prems have nk: "wire_name f \<notin> wire_name ` set fs" by auto
    from Cons.prems(1,4) True obtain ret' where "to_internal_value_loop fs data ret' errs = Inl e"
      by (cases "run_validation g (map_of data (wire_name g))") auto
    from to_internal_value_loop_other [OF this nk] show ?thesis .
  next
    case False
    with Cons.prems have f: "f \<in> set fs" and dist: "distinct (map wire_name fs)"
      and "wire_name g \<notin> wire_name ` set fs" by auto
    then have ne: "wire_name f \<noteq> wire_name g" by (metis imageI)
    from Cons.prems(1) obtain ret' errs' where
      step: "to_internal_value_loop fs data ret' errs' = Inl e"
      and errs': "errs' = errs \<or> (\<exists>v. errs' = AList.update (wire_name g) v errs)"
      by (cases "run_validation g (map_of data (wire_name g))") auto
    from errs' ne have "map_of errs' (wire_name f) = map_of errs (wire_name f)"
      by (auto simp: update_conv')
    with Cons.IH [OF step dist f Cons.prems(4)] show ?thesis by simp
  qed
qed

lemmas request_defs = ProgramEnrollmentRequestMixin_def ProgramEnrollmentCreateRequestSerializer_def
  ProgramEnrollmentUpdateRequestSerializer_def ProgramCourseEnrollmentRequestSerializer_def
  CharField_in_def UUIDField_in_def ChoiceField_in_def

lemma request_serializers_distinct:
  "S \<in> set (request_serializers parse) \<Longrightarrow> distinct (map wire_name S)"
  by (auto simp: request_serializers_def request_defs)

lemma request_serializers_fields:
  assumes "S \<in> set (request_serializers parse)"
  shows "CharField_in ''student_key'' False ''external_user_key'' \<in> set S"
    and "CharField_in ''status'' False ''status'' \<in> set S"
  using assms by (auto simp: request_serializers_def request_defs)

lemma CharField_blank:
  "CharField_run_validation req False (Some (RStr [])) = Invalid (fail ''blank'' ''This field may not be blank.'')"
  by (simp add: CharField_run_validation_def)

lemma digits_chars: "c \<in> set (digits n) \<Longrightarrow> of_char c < (58::nat)"
proof (induction n rule: digits.induct)
  case (1 n)
  show ?case
  proof (cases "n < 10")
    case True
    with "1.prems" have "c = char_of (48 + n)" by (simp add: digits.simps [of n])
    with True show ?thesis by (simp add: of_char_of)
  next
    case False
    with "1.prems" have "c \<in> set (digits (n div 10)) \<or> c = char_of (48 + n mod 10)"
      by (auto simp add: digits.simps [of n])
    then show ?thesis
    proof
      assume "c \<in> set (digits (n div 10))"
      with "1.IH" False show ?thesis by simp
    next
      assume "c = char_of (48 + n mod 10)"
      moreover have "n mod 10 < 10" by simp
      ultimately show ?thesis by (simp add: of_char_of)
    qed
  qed
qed

lemma str_of_int_chars: "c \<in> set (str_of_int i) \<Longrightarrow> of_char c < (58::nat)"
  by (auto simp: str_of_int_def dest: digits_chars split: if_splits)

lemma str_of_int_not_choice: "str_of_int i \<notin> set STATUS_CHOICES"
proof
  assume a: "str_of_int i \<in> set STATUS_CHOICES"
  then have "CHR ''p'' \<in> set (str_of_int i)"
    by (auto simp: STATUS_CHOICES_def IN_PROGRESS_def UPCOMING_def COMPLETED_def)
  from str_of_int_chars [OF this] show False by simp
qed

lemma text_type_choice:
  "text_type v \<in> set STATUS_CHOICES \<longleftrightarrow> v \<in> {RStr ''in_progress'', RStr ''upcoming'', RStr ''completed''}"
proof (cases v)
  case (RInt i)
  with str_of_int_not_choice [of i] show ?thesis by simp
qed (auto simp: STATUS_CHOICES_def IN_PROGRESS_def UPCOMING_def COMPLETED_def)

lemma map_of_choices:
  "map_of (map (\<lambda>c. (c, c)) choices) t = (if t \<in> set choices then Some t else None)"
  by (induction choices) auto

lemma course_run_status_outcome:
  "run_validation course_run_status_field x =
     (case x of
        None \<Rightarrow> Invalid (fail ''required'' ''This field is required.'')
      | Some v \<Rightarrow>
          if v \<in> {RStr ''in_progress'', RStr ''upcoming'', RStr ''completed''} then Valid (VStr (text_type v))
          else if v = RNull then Invalid (fail ''null'' ''This field may not be null.'')
          else Invalid (fail ''invalid_choice'' (dquote @ text_type v @ dquote @ '' is not a valid choice.'')))"
proof (cases x)
  case None
  then show ?thesis
    by (simp add: course_run_status_field_def ChoiceField_in_def ChoiceField_run_validation_def
        validate_empty_values_def)
next
  case (Some v)
  show ?thesis
  proof (cases "v = RNull")
    case True
    with Some show ?thesis
      by (simp add: course_run_status_field_def ChoiceField_in_def ChoiceField_run_validation_def
          validate_empty_values_def)
  next
    case False
    then have "validate_empty_values True (Some v) = Inr v"
      by (cases v) (simp_all add: validate_empty_values_def)
    with Some False text_type_choice [of v] show ?thesis
      by (simp add: course_run_status_field_def ChoiceField_in_def ChoiceField_run_validation_def
          map_of_choices)
  qed
qed

lemmas char_defs = CharField_run_validation_def validate_empty_values_def
  CharField_to_internal_value_def CharField_run_validators_def

lemma CharField_required_not_Skip: "CharField_run_validation True ab x \<noteq> Skip"
  by (cases x; (cases "the x")?)
     (auto simp: char_defs split: raw.splits option.splits outcome.splits pyvalue.splits if_splits)

lemma CharField_Valid:
  "CharField_run_validation True False x = Valid a \<Longrightarrow> \<exists>d. x = Some d \<and> a = VStr (strip (text_type d))"
  by (cases x; (cases "the x")?)
     (auto simp: char_defs split: raw.splits option.splits outcome.splits pyvalue.splits if_splits)

lemma two_fields_valid:
  assumes "to_internal_value_loop
     [CharField_in ''student_key'' False ''external_user_key'', CharField_in ''status'' False ''status''] data [] []
     = Inr vd"
  shows "\<exists>a b. CharField_run_validation True False (map_of data ''student_key'') = Valid a
     \<and> CharField_run_validation True False (map_of data ''status'') = Valid b
     \<and> vd = [(''external_user_key'', a), (''status'', b)]"
  using assms CharField_required_not_Skip [of False "map_of data ''student_key''"]
    CharField_required_not_Skip [of False "map_of data ''status''"]
  by (auto simp: CharField_in_def split: outcome.splits)

lemma three_fields_valid:
  assumes "to_internal_value_loop
     ([CharField_in ''student_key'' False ''external_user_key'', CharField_in ''status'' False ''status'']
      @ [UUIDField_in parse ''curriculum_uuid'']) data [] [] = Inr vd"
  shows "\<exists>a b. CharField_run_validation True False (map_of data ''student_key'') = Valid a
     \<and> CharField_run_validation True False (map_of data ''status'') = Valid b
     \<and> (vd = [(''external_user_key'', a), (''status'', b)]
         \<or> (\<exists>c. vd = [(''external_user_key'', a), (''status'', b), (''curriculum_uuid'', c)]))"
  using assms CharField_required_not_Skip [of False "map_of data ''student_key''"]
    CharField_required_not_Skip [of False "map_of data ''status''"]
  by (auto simp: CharField_in_def UUIDField_in_def split: outcome.splits)

lemma abc_mixin:
  "to_internal_value_loop
     [CharField_in ''student_key'' False ''external_user_key'', CharField_in ''status'' False ''status'']
     [(''student_key'', RStr ''abc''), (''status'', RStr ''invalid_status_value'')] [] []
   = Inr [(''external_user_key'', VStr ''abc''), (''status'', VStr ''invalid_status_value'')]"
  by (simp add: CharField_in_def char_defs strip_def isspace_def)

text \<open>
  The creation request serializer declares \<^verbatim>\<open>curriculum_uuid\<close> besides the two
  fields of its base class. Its status is unchecked in the same way: with a
  curriculum UUID that the library accepts, the mapping with the status
  \<^verbatim>\<open>invalid_status_value\<close> is valid.
\<close>

lemma create_request_unchecked_status:
  assumes "parse u = Some c" "u \<noteq> RNull"
  shows "to_internal_value (ProgramEnrollmentCreateRequestSerializer parse)
      [(''student_key'', RStr ''abc''), (''status'', RStr ''invalid_status_value''),
       (''curriculum_uuid'', u)]
     = Inr [(''external_user_key'', VStr ''abc''), (''status'', VStr ''invalid_status_value''),
            (''curriculum_uuid'', VUUID c)]"
proof -
  from assms(2) have "validate_empty_values True (Some u) = Inr u"
    by (cases u) (simp_all add: validate_empty_values_def)
  with assms(1) show ?thesis
    by (simp add: to_internal_value_def ProgramEnrollmentCreateRequestSerializer_def
        ProgramEnrollmentRequestMixin_def CharField_in_def UUIDField_in_def
        CharField_run_validation_def CharField_to_internal_value_def CharField_run_validators_def
        strip_def isspace_def UUIDField_run_validation_def validate_empty_values_def)
qed

text \<open>
  Claim C2. The mapping \<^verbatim>\<open>{student_key: "abc", status: "invalid_status_value"}\<close> is
  valid for the request serializers that declare exactly \<^verbatim>\<open>student_key\<close> and
  \<^verbatim>\<open>status\<close>: the base request serializer \<^verbatim>\<open>ProgramEnrollmentRequestMixin\<close>, the
  update request serializer, which adds nothing to it, and the course-enrollment
  request serializer. The validation returns the validated data, with the status
  stored unchecked; the error report is empty and \<^verbatim>\<open>has_invalid_status\<close> is false on
  it.
\<close>

theorem unchecked_status_request:
  "to_internal_value ProgramEnrollmentRequestMixin
      [(''student_key'', RStr ''abc''), (''status'', RStr ''invalid_status_value'')]
     = Inr [(''external_user_key'', VStr ''abc''), (''status'', VStr ''invalid_status_value'')]
   \<and> to_internal_value ProgramEnrollmentUpdateRequestSerializer
      [(''student_key'', RStr ''abc''), (''status'', RStr ''invalid_status_value'')]
     = Inr [(''external_user_key'', VStr ''abc''), (''status'', VStr ''invalid_status_value'')]
   \<and> to_internal_value ProgramCourseEnrollmentRequestSerializer
      [(''student_key'', RStr ''abc''), (''status'', RStr ''invalid_status_value'')]
     = Inr [(''external_user_key'', VStr ''abc''), (''status'', VStr ''invalid_status_value'')]
   \<and> errors_of (to_internal_value ProgramEnrollmentRequestMixin
      [(''student_key'', RStr ''abc''), (''status'', RStr ''invalid_status_value'')]) = []
   \<and> errors_of (to_internal_value ProgramEnrollmentUpdateRequestSerializer
      [(''student_key'', RStr ''abc''), (''status'', RStr ''invalid_status_value'')]) = []
   \<and> errors_of (to_internal_value ProgramCourseEnrollmentRequestSerializer
      [(''student_key'', RStr ''abc''), (''status'', RStr ''invalid_status_value'')]) = []
   \<and> is_valid ProgramEnrollmentRequestMixin
      [(''student_key'', RStr ''abc''), (''status'', RStr ''invalid_status_value'')]
   \<and> is_valid ProgramEnrollmentUpdateRequestSerializer
      [(''student_key'', RStr ''abc''), (''status'', RStr ''invalid_status_value'')]
   \<and> is_valid ProgramCourseEnrollmentRequestSerializer
      [(''student_key'', RStr ''abc''), (''status'', RStr ''invalid_status_value'')]
   \<and> \<not> has_invalid_status (errors_of (to_internal_value ProgramEnrollmentRequestMixin
      [(''student_key'', RStr ''abc''), (''status'', RStr ''invalid_status_value'')]))
   \<and> \<not> has_invalid_status (errors_of (to_internal_value ProgramEnrollmentUpdateRequestSerializer
      [(''student_key'', RStr ''abc''), (''status'', RStr ''invalid_status_value'')]))
   \<and> \<not> has_invalid_status (errors_of (to_internal_value ProgramCourseEnrollmentRequestSerializer
      [(''student_key'', RStr ''abc''), (''status'', RStr ''invalid_status_value'')]))"
proof -
  let ?data = "[(''student_key'', RStr ''abc''), (''status'', RStr ''invalid_status_value'')]"
  let ?vd = "[(''external_user_key'', VStr ''abc''), (''status'', VStr ''invalid_status_value'')]"
  have m: "to_internal_value ProgramEnrollmentRequestMixin ?data = Inr ?vd"
    using abc_mixin by (simp add: to_internal_value_def ProgramEnrollmentRequestMixin_def)
  have u: "to_internal_value ProgramEnrollmentUpdateRequestSerializer ?data = Inr ?vd"
    using m by (simp add: ProgramEnrollmentUpdateRequestSerializer_def)
  have c: "to_internal_value ProgramCourseEnrollmentRequestSerializer ?data = Inr ?vd"
    using abc_mixin by (simp add: to_internal_value_def ProgramCourseEnrollmentRequestSerializer_def)
  show ?thesis
    unfolding is_valid_def m u c by (simp add: errors_of_def has_invalid_status_def dict_get_def)
qed

theorem unchecked_status_request_witness:
  "is_valid ProgramCourseEnrollmentRequestSerializer
      [(''student_key'', RStr ''abc''), (''status'', RStr ''invalid_status_value'')]
   \<and> \<not> has_invalid_status (errors_of (to_internal_value ProgramCourseEnrollmentRequestSerializer
      [(''student_key'', RStr ''abc''), (''status'', RStr ''invalid_status_value'')]))"
  using unchecked_status_request by blast

text \<open>
  Claim C6. For each of the four request serializers and whatever else the mapping
  holds: an empty string under \<^verbatim>\<open>student_key\<close> (or under \<^verbatim>\<open>status\<close>) makes the
  validation fail, and the error recorded under that field is the \<^verbatim>\<open>blank\<close> error.
\<close>

theorem blank_rejected:
  assumes "S \<in> set (request_serializers parse)" "k = ''student_key'' \<or> k = ''status''"
    "map_of data k = Some (RStr [])"
  shows "\<exists>errs. to_internal_value S data = Inl errs
           \<and> map_of errs k = Some (fail ''blank'' ''This field may not be blank.'')
           \<and> \<not> is_valid S data"
proof -
  obtain f where f: "f \<in> set S" "wire_name f = k" "run_validation f = CharField_run_validation True False"
    using request_serializers_fields [OF assms(1)] assms(2)
    by (auto simp: CharField_in_def)
  then have "run_validation f (map_of data (wire_name f)) = Invalid (fail ''blank'' ''This field may not be blank.'')"
    using assms(3) by (simp add: CharField_blank)
  from to_internal_value_loop_invalid [OF request_serializers_distinct [OF assms(1)] f(1) this, of "[]" "[]"]
  obtain e where e: "to_internal_value S data = Inl e" "map_of e k = Some (fail ''blank'' ''This field may not be blank.'')"
    using f(2) by (auto simp: to_internal_value_def)
  then have "e \<noteq> []" by auto
  with e show ?thesis by (simp add: is_valid_def errors_of_def)
qed

theorem blank_rejected_witness:
  "ProgramCourseEnrollmentRequestSerializer \<in> set (request_serializers (\<lambda>d. None))
   \<and> map_of [(''student_key'', RStr []), (''status'', RStr ''enrolled'')] ''student_key'' = Some (RStr [])
   \<and> (\<exists>errs. to_internal_value ProgramCourseEnrollmentRequestSerializer
                [(''student_key'', RStr []), (''status'', RStr ''enrolled'')] = Inl errs
          \<and> map_of errs ''student_key'' = Some [\<lparr>message = ''This field may not be blank.'', code = ''blank''\<rparr>]
          \<and> \<not> is_valid ProgramCourseEnrollmentRequestSerializer
                [(''student_key'', RStr []), (''status'', RStr ''enrolled'')])"
proof -
  have s: "ProgramCourseEnrollmentRequestSerializer \<in> set (request_serializers (\<lambda>d. None))"
    by (simp add: request_serializers_def)
  have d: "map_of [(''student_key'', RStr []), (''status'', RStr ''enrolled'')] ''student_key'' = Some (RStr [])"
    by simp
  from blank_rejected [OF s _ d] s d show ?thesis
    by (simp add: fail_def)
qed

text \<open>
  Claim C7, as stated, fails at one value: \<^verbatim>\<open>null\<close> is rejected by the check for
  \<^verbatim>\<open>None\<close>, which runs before the choices are looked at, and the error recorded has
  the code \<^verbatim>\<open>null\<close>, not \<^verbatim>\<open>invalid_choice\<close>.
\<close>

theorem course_run_status_null_counterexample:
  "to_internal_value [course_run_status_field] [(''course_run_status'', RNull)]
     = Inl [(''course_run_status'', [\<lparr>message = ''This field may not be null.'', code = ''null''\<rparr>])]"
  by (simp add: to_internal_value_def course_run_status_field_def ChoiceField_in_def
      ChoiceField_run_validation_def validate_empty_values_def fail_def)

text \<open>
  Claim C7, amended. In any serializer that declares \<^verbatim>\<open>course_run_status\<close> as the
  file does, whatever its other fields: the field accepts exactly the strings
  \<^verbatim>\<open>in_progress\<close>, \<^verbatim>\<open>upcoming\<close> and \<^verbatim>\<open>completed\<close>, and no error is recorded under
  \<^verbatim>\<open>course_run_status\<close> for them; every other value that is not null (the empty
  string, any other string, a number, a boolean) records the \<^verbatim>\<open>invalid_choice\<close>
  error under \<^verbatim>\<open>course_run_status\<close>; null records the \<^verbatim>\<open>null\<close> error and a
  missing key the \<^verbatim>\<open>required\<close> error.
\<close>

theorem course_run_status_validation:
  assumes "course_run_status_field \<in> set fs" "distinct (map wire_name fs)"
  shows "map_of (errors_of (to_internal_value fs data)) ''course_run_status'' =
     (case map_of data ''course_run_status'' of
        None \<Rightarrow> Some (fail ''required'' ''This field is required.'')
      | Some v \<Rightarrow>
          if v \<in> {RStr ''in_progress'', RStr ''upcoming'', RStr ''completed''} then None
          else if v = RNull then Some (fail ''null'' ''This field may not be null.'')
          else Some (fail ''invalid_choice'' (dquote @ text_type v @ dquote @ '' is not a valid choice.'')))
   \<and> (\<forall>s. run_validation course_run_status_field (map_of data ''course_run_status'') = Valid (VStr s)
          \<longleftrightarrow> map_of data ''course_run_status'' = Some (RStr s)
              \<and> s \<in> {''in_progress'', ''upcoming'', ''completed''})"
proof
  let ?x = "map_of data ''course_run_status''"
  have nm: "wire_name course_run_status_field = ''course_run_status''"
    by (simp add: course_run_status_field_def ChoiceField_in_def)
  show "map_of (errors_of (to_internal_value fs data)) ''course_run_status'' =
     (case ?x of
        None \<Rightarrow> Some (fail ''required'' ''This field is required.'')
      | Some v \<Rightarrow>
          if v \<in> {RStr ''in_progress'', RStr ''upcoming'', RStr ''completed''} then None
          else if v = RNull then Some (fail ''null'' ''This field may not be null.'')
          else Some (fail ''invalid_choice'' (dquote @ text_type v @ dquote @ '' is not a valid choice.'')))"
  proof (cases "\<exists>detail. run_validation course_run_status_field ?x = Invalid detail")
    case True
    then obtain detail where d: "run_validation course_run_status_field ?x = Invalid detail" by blast
    from to_internal_value_loop_invalid [OF assms(2) assms(1), of data detail "[]" "[]"] d nm
    have "map_of (errors_of (to_internal_value fs data)) ''course_run_status'' = Some detail"
      by (auto simp: to_internal_value_def errors_of_def)
    with d show ?thesis
      by (auto simp: course_run_status_outcome split: option.splits if_splits)
  next
    case False
    have "map_of (errors_of (to_internal_value fs data)) ''course_run_status'' = None"
    proof (cases "to_internal_value fs data")
      case (Inl e)
      from to_internal_value_loop_not_invalid [OF Inl [unfolded to_internal_value_def] assms(2) assms(1)] False nm Inl
      show ?thesis by (simp add: errors_of_def)
    next
      case (Inr v)
      then show ?thesis by (simp add: errors_of_def)
    qed
    with False show ?thesis
      by (auto simp: course_run_status_outcome split: option.splits if_splits)
  qed
next
  show "\<forall>s. run_validation course_run_status_field (map_of data ''course_run_status'') = Valid (VStr s)
          \<longleftrightarrow> map_of data ''course_run_status'' = Some (RStr s)
              \<and> s \<in> {''in_progress'', ''upcoming'', ''completed''}"
    by (auto simp: course_run_status_outcome split: option.splits if_splits)
qed

theorem course_run_status_validation_witness:
  "course_run_status_field \<in> set [course_run_status_field]
   \<and> distinct (map wire_name [course_run_status_field])
   \<and> map_of (errors_of (to_internal_value [course_run_status_field]
        [(''course_run_status'', RStr [])])) ''course_run_status''
      = Some [\<lparr>message = [CHR 0x22, CHR 0x22] @ '' is not a valid choice.'', code = ''invalid_choice''\<rparr>]
   \<and> run_validation course_run_status_field
        (map_of [(''course_run_status'', RStr ''upcoming'')] ''course_run_status'')
      = Valid (VStr ''upcoming'')"
proof -
  have m: "course_run_status_field \<in> set [course_run_status_field]" by simp
  have d: "distinct (map wire_name [course_run_status_field])" by simp
  from course_run_status_validation [OF m d, of "[(''course_run_status'', RStr [])]"]
    course_run_status_validation [OF m d, of "[(''course_run_status'', RStr ''upcoming'')]"]
  show ?thesis by (simp add: fail_def dquote_def)
qed

text \<open>
  Claim C10. Whenever one of the four request serializers accepts a mapping, the
  validated data holds the validated \<^verbatim>\<open>student_key\<close> (its text, stripped of
  surrounding white space) under the key \<^verbatim>\<open>external_user_key\<close> and has no key
  \<^verbatim>\<open>student_key\<close>. In the other direction the program-enrollment view reads the
  attribute \<^verbatim>\<open>external_user_key\<close> and emits it under \<^verbatim>\<open>student_key\<close>; the output
  has no key \<^verbatim>\<open>external_user_key\<close>.
\<close>

theorem student_key_stored_as_external_user_key:
  assumes "S \<in> set (request_serializers parse)" "to_internal_value S data = Inr vd"
  shows "(\<exists>d. map_of data ''student_key'' = Some d
            \<and> map_of vd ''external_user_key'' = Some (VStr (strip (text_type d))))
       \<and> ''student_key'' \<notin> fst ` set vd
       \<and> (\<exists>out. to_representation ProgramEnrollmentSerializer pe = Inr out
            \<and> map_of out ''student_key'' = Some (json_of_key (external_user_key pe))
            \<and> ''external_user_key'' \<notin> fst ` set out)"
proof -
  from assms have "\<exists>a b. CharField_run_validation True False (map_of data ''student_key'') = Valid a
     \<and> (vd = [(''external_user_key'', a), (''status'', b)]
         \<or> (\<exists>c. vd = [(''external_user_key'', a), (''status'', b), (''curriculum_uuid'', c)]))"
    unfolding request_serializers_def to_internal_value_def ProgramEnrollmentRequestMixin_def
      ProgramEnrollmentCreateRequestSerializer_def ProgramEnrollmentUpdateRequestSerializer_def
      ProgramCourseEnrollmentRequestSerializer_def
    using two_fields_valid [of data vd] three_fields_valid [of parse data vd]
    by auto
  then obtain a b where a: "CharField_run_validation True False (map_of data ''student_key'') = Valid a"
    and vd: "vd = [(''external_user_key'', a), (''status'', b)]
         \<or> (\<exists>c. vd = [(''external_user_key'', a), (''status'', b), (''curriculum_uuid'', c)])"
    by blast
  from CharField_Valid [OF a] vd show ?thesis
    by (auto simp: ProgramEnrollmentSerializer_output)
qed

theorem student_key_stored_as_external_user_key_witness:
  "ProgramEnrollmentUpdateRequestSerializer \<in> set (request_serializers (\<lambda>d. None))
   \<and> to_internal_value ProgramEnrollmentUpdateRequestSerializer
        [(''student_key'', RStr ''abc''), (''status'', RStr ''enrolled'')]
      = Inr [(''external_user_key'', VStr ''abc''), (''status'', VStr ''enrolled'')]
   \<and> map_of [(''external_user_key'', VStr ''abc''), (''status'', VStr ''enrolled'')] ''external_user_key''
      = Some (VStr ''abc'')
   \<and> ''student_key'' \<notin> fst ` set [(''external_user_key'', VStr ''abc''), (''status'', VStr ''enrolled'')]
   \<and> (\<exists>out. to_representation ProgramEnrollmentSerializer
          \<lparr>external_user_key = Some ''abc'', status = ''enrolled'', user = None, curriculum_uuid = 5\<rparr>
          = Inr out
        \<and> map_of out ''student_key'' = Some (JStr ''abc''))"
proof -
  have s: "ProgramEnrollmentUpdateRequestSerializer \<in> set (request_serializers (\<lambda>d. None))"
    by (simp add: request_serializers_def)
  have v: "to_internal_value ProgramEnrollmentUpdateRequestSerializer
        [(''student_key'', RStr ''abc''), (''status'', RStr ''enrolled'')]
      = Inr [(''external_user_key'', VStr ''abc''), (''status'', VStr ''enrolled'')]"
    by (simp add: to_internal_value_def ProgramEnrollmentUpdateRequestSerializer_def
        ProgramEnrollmentRequestMixin_def CharField_in_def char_defs strip_def isspace_def)
  from student_key_stored_as_external_user_key [OF s v,
      of "\<lparr>external_user_key = Some ''abc'', status = ''enrolled'', user = None, curriculum_uuid = 5\<rparr>"]
    s v
  show ?thesis by (auto simp: json_of_key_def)
qed

end
